theory Spec2Isabelle
  imports Main
begin

section \<open>The gateway bootstrap of lolopy (python/lolopy/loloserver.py)\<close>

text \<open>
  The module reads the process environment and the filesystem, runs \<^verbatim>\<open>java -version\<close>
  as a child process, launches a py4j gateway, and keeps the launched gateway in the module
  global \<^verbatim>\<open>_lolopy_gateway\<close>. The embedding makes each of these explicit: everything
  the module reads from outside is a field of a record \<open>world\<close>, the global and a log
  of the calls made are a record \<open>state\<close> that is passed in and returned, and every
  exception is a value of \<open>py_error\<close> on the left of a sum.
\<close>

subsection \<open>Strings and paths\<close>

type_synonym path = string

text \<open>Python's \<^verbatim>\<open>str.startswith\<close> and \<^verbatim>\<open>str.endswith\<close> (the same on bytes).\<close>

definition startswith :: "string \<Rightarrow> string \<Rightarrow> bool" where
  "startswith s p = (take (length p) s = p)"

definition endswith :: "string \<Rightarrow> string \<Rightarrow> bool" where
  "endswith s p = (length p \<le> length s \<and> drop (length s - length p) s = p)"

text \<open>
  \<^verbatim>\<open>os.path.join(a, *p)\<close> of posixpath: a component that starts with the separator
  replaces what came before it; otherwise it is appended, with a separator unless the path
  so far is empty or already ends with one. \<open>join_step\<close> is the body of its loop.
\<close>

definition join_step :: "path \<Rightarrow> path \<Rightarrow> path" where
  "join_step p b =
     (if startswith b ''/'' then b
      else if p = [] \<or> endswith p ''/'' then p @ b
      else p @ ''/'' @ b)"

definition path_join :: "path \<Rightarrow> path list \<Rightarrow> path" where
  "path_join a ps = foldl join_step a ps"

text \<open>\<^verbatim>\<open>'{}'.format(x)\<close> for a value that is a string or \<^verbatim>\<open>None\<close>.\<close>

definition format_str :: "string option \<Rightarrow> string" where
  "format_str x = (case x of None \<Rightarrow> ''None'' | Some s \<Rightarrow> s)"

subsection \<open>The outside world\<close>

text \<open>
  An XML element as \<^verbatim>\<open>xml.etree.ElementTree\<close> presents it: a tag (with its namespace
  in braces), a text that may be \<^verbatim>\<open>None\<close>, and the child elements in document order.
\<close>

datatype element = Element (elem_tag: string) (elem_text: "string option") (elem_children: "element list")

text \<open>
  A file either holds well-formed XML, given by its root element, or does not. A path
  names a directory, a regular file or nothing; \<open>files w p\<close> is what the operating
  system finds at the path string \<open>p\<close>.
\<close>

datatype file_content = Xml element | NotXml

datatype node = Dir | File file_content

text \<open>
  What \<^verbatim>\<open>subprocess.run(['java', '-version'], stdout=PIPE, stderr=PIPE)\<close> does:
  it raises \<^verbatim>\<open>FileNotFoundError\<close> when no such executable is on the PATH and
  \<^verbatim>\<open>PermissionError\<close> when the one found may not be executed, and otherwise
  returns the captured output streams of the child.
\<close>

datatype run_outcome =
    ExecutableNotFound
  | ExecutableDenied
  | Completed (proc_stdout: string) (proc_stderr: string)

datatype py_error =
    FileNotFoundError
  | PermissionError
  | IsADirectoryError
  | ParseError
  | AttributeError
  | RuntimeError string
  | ValueError string
  | Py4JError

text \<open>A launched gateway object; the number is its identity.\<close>

datatype handle = JavaGateway nat

record world =
  environ :: "string \<rightharpoonup> string"
  files :: "path \<rightharpoonup> node"
  module_dir :: path
  java_version_run :: "(string \<rightharpoonup> string) \<Rightarrow> run_outcome"
  abspath :: "path \<Rightarrow> path"
  launch_gateway :: "path \<Rightarrow> string list \<Rightarrow> py_error + handle"

text \<open>
  \<open>java_version_run w env\<close> is the run of \<^verbatim>\<open>java -version\<close> in a child that
  is given the environment \<open>env\<close>: the search of the PATH and the launcher that is
  found both see it. \<open>module_dir\<close> is \<^verbatim>\<open>os.path.dirname(__file__)\<close>; \<open>abspath\<close> is
  \<^verbatim>\<open>os.path.abspath\<close>, which depends on the working directory;
  \<open>launch_gateway w cp opts\<close> is what \<^verbatim>\<open>JavaGateway.launch_gateway\<close> returns
  or raises for that class path and those options.
\<close>

definition isdir :: "world \<Rightarrow> path \<Rightarrow> bool" where
  "isdir w p = (case files w p of Some Dir \<Rightarrow> True | _ \<Rightarrow> False)"

definition isfile :: "world \<Rightarrow> path \<Rightarrow> bool" where
  "isfile w p = (case files w p of Some (File c) \<Rightarrow> True | _ \<Rightarrow> False)"

text \<open>\<^verbatim>\<open>os.environ.get(key, default)\<close>.\<close>

definition environ_get :: "world \<Rightarrow> string \<Rightarrow> string \<Rightarrow> string" where
  "environ_get w k d = (case environ w k of None \<Rightarrow> d | Some v \<Rightarrow> v)"

text \<open>
  \<^verbatim>\<open>ElementTree.parse(path)\<close>: opening a path that does not exist or is a directory
  raises, and so does a file that is not well-formed XML.
\<close>

definition ElementTree_parse :: "world \<Rightarrow> path \<Rightarrow> py_error + element" where
  "ElementTree_parse w p =
     (case files w p of
        None \<Rightarrow> Inl FileNotFoundError
      | Some Dir \<Rightarrow> Inl IsADirectoryError
      | Some (File NotXml) \<Rightarrow> Inl ParseError
      | Some (File (Xml root)) \<Rightarrow> Inr root)"

text \<open>
  \<^verbatim>\<open>pom.find(tag)\<close> with a plain tag: the first child of the root with that tag,
  or \<^verbatim>\<open>None\<close>.
\<close>

definition find_elem :: "element \<Rightarrow> string \<Rightarrow> element option" where
  "find_elem root t = List.find (\<lambda>c. elem_tag c = t) (elem_children root)"

subsection \<open>The module\<close>

text \<open>\<^verbatim>\<open>_lolo_root = os.path.join(os.path.dirname(__file__), '..', '..')\<close>\<close>

definition lolo_root :: "world \<Rightarrow> path" where
  "lolo_root w = path_join (module_dir w) [''..'', ''..'']"

definition is_development_installation :: "world \<Rightarrow> bool" where
  "is_development_installation w =
     isdir w (path_join (lolo_root w) [''src'', ''main'', ''scala'', ''io'', ''citrine'', ''lolo''])"

text \<open>
  \<^verbatim>\<open>_java_is_installed(ignore_env)\<close>. The call of \<^verbatim>\<open>run\<close> stands in no
  \<^verbatim>\<open>try\<close>, so what it raises leaves the function; it passes no
  \<^verbatim>\<open>env\<close>, so the child inherits \<^verbatim>\<open>os.environ\<close>.
\<close>

definition java_is_installed :: "world \<Rightarrow> bool \<Rightarrow> py_error + bool" where
  "java_is_installed w ignore_env =
     (if \<not> ignore_env \<and>
         isfile w (path_join (environ_get w ''JAVA_HOME'' ''.'') [''bin'', ''java''])
      then Inr True
      else (case java_version_run w (environ w) of
              ExecutableNotFound \<Rightarrow> Inl FileNotFoundError
            | ExecutableDenied \<Rightarrow> Inl PermissionError
            | Completed out err \<Rightarrow>
                Inr (startswith out ''java version'' \<or> startswith err ''java version'')))"

text \<open>
  \<^verbatim>\<open>find_lolo_jar(skip_devel_version)\<close>. \<^verbatim>\<open>pom.find(...).text\<close> raises
  \<^verbatim>\<open>AttributeError\<close> when \<^verbatim>\<open>find\<close> returns \<^verbatim>\<open>None\<close>.
\<close>

definition find_lolo_jar :: "world \<Rightarrow> bool \<Rightarrow> py_error + path" where
  "find_lolo_jar w skip_devel_version =
     (if \<not> skip_devel_version \<and> is_development_installation w then
        (case ElementTree_parse w (path_join (lolo_root w) [''pom.xml'']) of
           Inl e \<Rightarrow> Inl e
         | Inr pom \<Rightarrow>
             (case find_elem pom ''{http://maven.apache.org/POM/4.0.0}version'' of
                None \<Rightarrow> Inl AttributeError
              | Some el \<Rightarrow>
                  (let lolo_version = elem_text el;
                       jar_path = path_join (lolo_root w)
                         [''target'', ''lolo-'' @ format_str lolo_version @ ''-jar-with-dependencies.jar'']
                   in if \<not> isfile w jar_path
                      then Inl (RuntimeError
                        ''Current version of lolo jar not found. Try re-building project with make'')
                      else Inr jar_path)))
      else
        (let jar_path = path_join (module_dir w) [''jar'', ''lolo-jar-with-dependencies.jar'']
         in if \<not> isfile w jar_path
            then Inl (RuntimeError ''Lolo not found. Try reinstalling lolo from PyPi.'')
            else Inr jar_path))"

text \<open>
  The state of the module: the global \<^verbatim>\<open>_lolopy_gateway\<close>, and a log of the calls
  \<^verbatim>\<open>get_java_gateway\<close> has made, in order: of \<^verbatim>\<open>find_lolo_jar\<close> and of
  \<^verbatim>\<open>_java_is_installed\<close> with their argument, and of
  \<^verbatim>\<open>JavaGateway.launch_gateway\<close> with its class path and Java options.
\<close>

datatype event = FindJar bool | JavaCheck bool | Launch path "string list"

record state =
  lolopy_gateway :: "handle option"
  calls :: "event list"

definition log_call :: "event \<Rightarrow> state \<Rightarrow> state" where
  "log_call ev s = s\<lparr>calls := calls s @ [ev]\<rparr>"

text \<open>
  Lines 81 to 85 of \<^verbatim>\<open>get_java_gateway\<close>: the list starts empty, and
  \<^verbatim>\<open>'-Xmx' + os.environ['LOLOPY_JVM_MEMORY']\<close> is appended when the key is in the
  environment.
\<close>

definition java_options :: "world \<Rightarrow> string list" where
  "java_options w =
     (case environ w ''LOLOPY_JVM_MEMORY'' of
        None \<Rightarrow> []
      | Some v \<Rightarrow> [] @ [''-Xmx'' @ v])"

text \<open>
  \<^verbatim>\<open>get_java_gateway(reuse, skip_devel_version)\<close>. The result is what the call
  returns or raises, with the state it leaves. The class path is
  \<^verbatim>\<open>os.path.pathsep.join\<close> of a one-element list, which is that element.
\<close>

definition get_java_gateway :: "world \<Rightarrow> state \<Rightarrow> bool \<Rightarrow> bool \<Rightarrow> (py_error + handle) \<times> state" where
  "get_java_gateway w s reuse skip_devel_version =
     (let opts = java_options w in
      if lolopy_gateway s = None \<or> \<not> reuse then
        (let s1 = log_call (FindJar skip_devel_version) s in
         case find_lolo_jar w skip_devel_version of
           Inl e \<Rightarrow> (Inl e, s1)
         | Inr lolo_path \<Rightarrow>
             (let s2 = log_call (JavaCheck False) s1 in
              case java_is_installed w False of
                Inl e \<Rightarrow> (Inl e, s2)
              | Inr installed \<Rightarrow>
                  if \<not> installed
                  then (Inl (ValueError
                    ''Cannot find Java installation. Java must be installed and on your PATH''), s2)
                  else
                    (let cp = abspath w lolo_path;
                         s3 = log_call (Launch cp opts) s2
                     in case launch_gateway w cp opts of
                          Inl e \<Rightarrow> (Inl e, s3)
                        | Inr g \<Rightarrow> (Inr g, s3\<lparr>lolopy_gateway := Some g\<rparr>))))
      else (Inr (the (lolopy_gateway s)), s))"

subsection \<open>Example worlds\<close>

text \<open>
  A source checkout of lolo at \<^verbatim>\<open>/lolo\<close>, with the module in
  \<^verbatim>\<open>/lolo/python/lolopy\<close>, the jar built and a Java on the PATH; and variants
  of it: the jar not built (but a packaged jar present), the descriptor missing, not
  well-formed or without a version element, no Java executable on the PATH, a Java whose
  banner starts differently, a Java found through \<^verbatim>\<open>JAVA_HOME\<close> only, a launcher on the PATH that
  runs the Java that \<^verbatim>\<open>JAVA_HOME\<close> names and reports none when the variable is
  unset (as the \<^verbatim>\<open>/usr/bin/java\<close> of macOS does), and the
  heap variable set to \<^verbatim>\<open>2g\<close> and to the empty string.
\<close>

definition pom_1_0_2 :: element where
  "pom_1_0_2 =
     Element ''{http://maven.apache.org/POM/4.0.0}project'' None
       [Element ''{http://maven.apache.org/POM/4.0.0}modelVersion'' (Some ''4.0.0'') [],
        Element ''{http://maven.apache.org/POM/4.0.0}artifactId'' (Some ''lolo'') [],
        Element ''{http://maven.apache.org/POM/4.0.0}version'' (Some ''1.0.2'') []]"

definition pom_no_version :: element where
  "pom_no_version =
     Element ''{http://maven.apache.org/POM/4.0.0}project'' None
       [Element ''{http://maven.apache.org/POM/4.0.0}modelVersion'' (Some ''4.0.0'') [],
        Element ''{http://maven.apache.org/POM/4.0.0}artifactId'' (Some ''lolo'') []]"

definition checkout_abspath :: "path \<Rightarrow> path" where
  "checkout_abspath p =
     (if p = ''/lolo/python/lolopy/../../target/lolo-1.0.2-jar-with-dependencies.jar''
      then ''/lolo/target/lolo-1.0.2-jar-with-dependencies.jar'' else p)"

definition checkout :: world where
  "checkout =
     \<lparr>environ = Map.empty,
      files = [''/lolo/python/lolopy/../../src/main/scala/io/citrine/lolo'' \<mapsto> Dir,
               ''/lolo/python/lolopy/../../pom.xml'' \<mapsto> File (Xml pom_1_0_2),
               ''/lolo/python/lolopy/../../target/lolo-1.0.2-jar-with-dependencies.jar'' \<mapsto> File NotXml],
      module_dir = ''/lolo/python/lolopy'',
      java_version_run = (\<lambda>env. Completed [] ''java version 1.8''),
      abspath = checkout_abspath,
      launch_gateway = (\<lambda>cp opts. Inr (JavaGateway 0))\<rparr>"

definition unbuilt_checkout :: world where
  "unbuilt_checkout =
     checkout\<lparr>files :=
       [''/lolo/python/lolopy/../../src/main/scala/io/citrine/lolo'' \<mapsto> Dir,
        ''/lolo/python/lolopy/../../pom.xml'' \<mapsto> File (Xml pom_1_0_2),
        ''/lolo/python/lolopy/jar/lolo-jar-with-dependencies.jar'' \<mapsto> File NotXml]\<rparr>"

definition checkout_without_pom :: world where
  "checkout_without_pom =
     checkout\<lparr>files := [''/lolo/python/lolopy/../../src/main/scala/io/citrine/lolo'' \<mapsto> Dir]\<rparr>"

definition checkout_with_broken_pom :: world where
  "checkout_with_broken_pom =
     checkout\<lparr>files :=
       [''/lolo/python/lolopy/../../src/main/scala/io/citrine/lolo'' \<mapsto> Dir,
        ''/lolo/python/lolopy/../../pom.xml'' \<mapsto> File NotXml]\<rparr>"

definition checkout_without_version :: world where
  "checkout_without_version =
     checkout\<lparr>files :=
       [''/lolo/python/lolopy/../../src/main/scala/io/citrine/lolo'' \<mapsto> Dir,
        ''/lolo/python/lolopy/../../pom.xml'' \<mapsto> File (Xml pom_no_version)]\<rparr>"

definition without_java :: world where
  "without_java = checkout\<lparr>java_version_run := (\<lambda>env. ExecutableNotFound)\<rparr>"

definition with_openjdk :: world where
  "with_openjdk =
     checkout\<lparr>java_version_run := (\<lambda>env. Completed [] ''openjdk version 11'')\<rparr>"

definition with_java_home :: world where
  "with_java_home =
     with_openjdk\<lparr>environ := [''JAVA_HOME'' \<mapsto> ''/jdk''],
                  files := [''/jdk/bin/java'' \<mapsto> File NotXml]\<rparr>"

definition with_launcher_stub :: world where
  "with_launcher_stub =
     checkout\<lparr>java_version_run :=
       (\<lambda>env. case env ''JAVA_HOME'' of
                None \<Rightarrow> Completed [] ''No Java runtime present, requesting install.''
              | Some home \<Rightarrow> Completed [] ''java version 1.8'')\<rparr>"

definition heap_2g :: world where
  "heap_2g = checkout\<lparr>environ := [''LOLOPY_JVM_MEMORY'' \<mapsto> ''2g'']\<rparr>"

definition heap_empty :: world where
  "heap_empty = checkout\<lparr>environ := [''LOLOPY_JVM_MEMORY'' \<mapsto> '''']\<rparr>"

definition fresh :: state where
  "fresh = \<lparr>lolopy_gateway = None, calls = []\<rparr>"

definition launched :: state where
  "launched =
     \<lparr>lolopy_gateway = Some (JavaGateway 0),
      calls = [FindJar False, JavaCheck False,
               Launch ''/lolo/target/lolo-1.0.2-jar-with-dependencies.jar'' []]\<rparr>"

section \<open>Properties\<close>

subsection \<open>Evaluation and paths\<close>

lemmas path_defs = path_join_def join_step_def startswith_def endswith_def format_str_def

lemmas module_defs =
  lolo_root_def is_development_installation_def isdir_def isfile_def environ_get_def
  ElementTree_parse_def find_elem_def

lemmas example_defs =
  pom_1_0_2_def pom_no_version_def checkout_def unbuilt_checkout_def checkout_without_pom_def
  checkout_with_broken_pom_def checkout_without_version_def without_java_def with_openjdk_def
  with_java_home_def with_launcher_stub_def heap_2g_def heap_empty_def fresh_def launched_def

lemma endswith_slash: "endswith s ''/'' \<longleftrightarrow> s \<noteq> [] \<and> last s = CHR ''/''"
  by (cases s rule: rev_cases) (auto simp: endswith_def)

lemma join_step_dots: "join_step p ''..'' \<noteq> [] \<and> last (join_step p ''..'') = CHR ''.''"
  by (simp add: join_step_def startswith_def)

lemma lolo_root_shape: "lolo_root w \<noteq> [] \<and> \<not> endswith (lolo_root w) ''/''"
  using join_step_dots [of "join_step (module_dir w) ''..''"]
  by (simp add: lolo_root_def path_join_def endswith_slash)

lemma join_step_plain:
  "\<not> startswith b ''/'' \<Longrightarrow> p \<noteq> [] \<Longrightarrow> \<not> endswith p ''/'' \<Longrightarrow> join_step p b = p @ ''/'' @ b"
  by (simp add: join_step_def)

lemma pom_path: "path_join (lolo_root w) [''pom.xml''] = lolo_root w @ ''/pom.xml''"
  using lolo_root_shape [of w] by (simp add: path_join_def join_step_plain startswith_def)

lemma jar_path:
  "path_join (lolo_root w) [''target'', ''lolo-'' @ v @ ''-jar-with-dependencies.jar'']
     = lolo_root w @ ''/target/lolo-'' @ v @ ''-jar-with-dependencies.jar''"
proof -
  have root: "lolo_root w \<noteq> []" "\<not> endswith (lolo_root w) ''/''"
    using lolo_root_shape [of w] by simp_all
  have target: "join_step (lolo_root w) ''target'' = lolo_root w @ ''/target''"
    using root by (simp add: join_step_plain startswith_def)
  have "join_step (lolo_root w @ ''/target'') (''lolo-'' @ v @ ''-jar-with-dependencies.jar'')
          = (lolo_root w @ ''/target'') @ ''/'' @ (''lolo-'' @ v @ ''-jar-with-dependencies.jar'')"
    by (rule join_step_plain) (simp_all add: startswith_def endswith_slash)
  with target show ?thesis
    by (simp add: path_join_def)
qed

lemma checkout_jar:
  "find_lolo_jar checkout False
     = Inr ''/lolo/python/lolopy/../../target/lolo-1.0.2-jar-with-dependencies.jar''"
  by (simp add: find_lolo_jar_def module_defs path_defs example_defs)



lemma unbuilt_marker: "is_development_installation unbuilt_checkout"
  by (simp add: module_defs path_defs example_defs)

lemma no_pom_marker: "is_development_installation checkout_without_pom"
  by (simp add: module_defs path_defs example_defs)

lemma no_pom_result: "find_lolo_jar checkout_without_pom False = Inl FileNotFoundError"
  by (simp add: find_lolo_jar_def module_defs path_defs example_defs)

lemma broken_pom_result: "find_lolo_jar checkout_with_broken_pom False = Inl ParseError"
  by (simp add: find_lolo_jar_def module_defs path_defs example_defs)

lemma no_version_result: "find_lolo_jar checkout_without_version False = Inl AttributeError"
  by (simp add: find_lolo_jar_def module_defs path_defs example_defs)

lemma openjdk_jar:
  "find_lolo_jar with_openjdk False
     = Inr ''/lolo/python/lolopy/../../target/lolo-1.0.2-jar-with-dependencies.jar''"
  by (simp add: find_lolo_jar_def module_defs path_defs example_defs)

lemma openjdk_java: "java_is_installed with_openjdk False = Inr False"
  by (simp add: java_is_installed_def module_defs path_defs example_defs)

lemma unbuilt_jar:
  "find_lolo_jar unbuilt_checkout False =
     Inl (RuntimeError ''Current version of lolo jar not found. Try re-building project with make'')"
  by (simp add: find_lolo_jar_def module_defs path_defs example_defs)

lemma unbuilt_fresh_launch:
  "get_java_gateway unbuilt_checkout launched False False =
     (Inl (RuntimeError ''Current version of lolo jar not found. Try re-building project with make''),
      launched\<lparr>calls := calls launched @ [FindJar False]\<rparr>)"
  by (simp add: get_java_gateway_def unbuilt_jar log_call_def)

lemma without_java_default_call: "java_is_installed without_java False = Inl FileNotFoundError"
  by (simp add: java_is_installed_def module_defs path_defs example_defs)



subsection \<open>Locating the jar\<close>

text \<open>
  C4: whenever \<open>find_lolo_jar\<close> returns a path, a regular file exists at that path, with
  or without the development version skipped.
\<close>

theorem find_lolo_jar_returns_existing_file:
  "find_lolo_jar w skip_devel_version = Inr p \<Longrightarrow> isfile w p"
  by (auto simp: find_lolo_jar_def Let_def split: if_splits sum.splits option.splits)

theorem find_lolo_jar_returns_existing_file_witness:
  "find_lolo_jar checkout False
     = Inr ''/lolo/python/lolopy/../../target/lolo-1.0.2-jar-with-dependencies.jar'' \<and>
   isfile checkout ''/lolo/python/lolopy/../../target/lolo-1.0.2-jar-with-dependencies.jar''"
  using find_lolo_jar_returns_existing_file [OF checkout_jar] checkout_jar by simp

text \<open>
  C5: in a development installation whose descriptor parses and whose version element has
  the text \<open>v\<close>, \<open>find_lolo_jar\<close> without skipping composes the path
  \<^verbatim>\<open>target/lolo-v-jar-with-dependencies.jar\<close> under the project root; it returns that
  path when a file is there, and otherwise raises the \<^verbatim>\<open>RuntimeError\<close> of the
  development branch (the spec's ArtifactNotFoundError), whatever is at the packaged path.
\<close>

theorem devel_jar_path_or_error:
  assumes "is_development_installation w"
    and "files w (lolo_root w @ ''/pom.xml'') = Some (File (Xml pom))"
    and "find_elem pom ''{http://maven.apache.org/POM/4.0.0}version'' = Some el"
    and "elem_text el = Some v"
  shows "find_lolo_jar w False =
     (if isfile w (lolo_root w @ ''/target/lolo-'' @ v @ ''-jar-with-dependencies.jar'')
      then Inr (lolo_root w @ ''/target/lolo-'' @ v @ ''-jar-with-dependencies.jar'')
      else Inl (RuntimeError
        ''Current version of lolo jar not found. Try re-building project with make''))"
  using assms jar_path [of w v]
  by (simp add: find_lolo_jar_def pom_path ElementTree_parse_def format_str_def)

theorem devel_jar_path_or_error_witness:
  "is_development_installation unbuilt_checkout \<and>
   isfile unbuilt_checkout ''/lolo/python/lolopy/jar/lolo-jar-with-dependencies.jar'' \<and>
   \<not> isfile unbuilt_checkout ''/lolo/python/lolopy/../../target/lolo-1.0.2-jar-with-dependencies.jar'' \<and>
   find_lolo_jar unbuilt_checkout False =
     Inl (RuntimeError ''Current version of lolo jar not found. Try re-building project with make'')"
proof -
  let ?el = "Element ''{http://maven.apache.org/POM/4.0.0}version'' (Some ''1.0.2'') []"
  have root: "lolo_root unbuilt_checkout = ''/lolo/python/lolopy/../..''"
    by (simp add: lolo_root_def path_defs example_defs)
  have pom: "files unbuilt_checkout (lolo_root unbuilt_checkout @ ''/pom.xml'') = Some (File (Xml pom_1_0_2))"
    by (simp add: root) (simp add: example_defs)
  have el: "find_elem pom_1_0_2 ''{http://maven.apache.org/POM/4.0.0}version'' = Some ?el"
    by (simp add: find_elem_def pom_1_0_2_def)
  have nofile: "\<not> isfile unbuilt_checkout ''/lolo/python/lolopy/../../target/lolo-1.0.2-jar-with-dependencies.jar''"
    by (simp add: isfile_def example_defs)
  have packaged: "isfile unbuilt_checkout ''/lolo/python/lolopy/jar/lolo-jar-with-dependencies.jar''"
    by (simp add: isfile_def example_defs)
  show ?thesis
    using devel_jar_path_or_error [OF unbuilt_marker pom el, of "''1.0.2''"] nofile packaged unbuilt_marker
    by (simp add: root)
qed

text \<open>
  C6, as the code has it: in a development installation, \<open>find_lolo_jar\<close> without
  skipping fails when the descriptor cannot be read, and the failure is the error of the
  library call that met it, unwrapped: \<^verbatim>\<open>FileNotFoundError\<close> from opening a
  descriptor that does not exist, \<^verbatim>\<open>ParseError\<close> from one that is not well-formed
  XML, and \<^verbatim>\<open>AttributeError\<close> from \<^verbatim>\<open>None.text\<close> when the descriptor
  has no version element. The module defines no error of its own for the three cases.
\<close>

theorem descriptor_failures_raise_library_errors:
  assumes "is_development_installation w"
  shows "(files w (lolo_root w @ ''/pom.xml'') = None \<longrightarrow>
            find_lolo_jar w False = Inl FileNotFoundError) \<and>
         (files w (lolo_root w @ ''/pom.xml'') = Some (File NotXml) \<longrightarrow>
            find_lolo_jar w False = Inl ParseError) \<and>
         (files w (lolo_root w @ ''/pom.xml'') = Some (File (Xml pom)) \<and>
          find_elem pom ''{http://maven.apache.org/POM/4.0.0}version'' = None \<longrightarrow>
            find_lolo_jar w False = Inl AttributeError)"
  using assms by (simp add: find_lolo_jar_def pom_path ElementTree_parse_def)

theorem descriptor_failures_raise_library_errors_witness:
  "is_development_installation checkout_without_pom \<and>
   files checkout_without_pom (lolo_root checkout_without_pom @ ''/pom.xml'') = None \<and>
   find_lolo_jar checkout_without_pom False = Inl FileNotFoundError"
proof -
  have root: "lolo_root checkout_without_pom = ''/lolo/python/lolopy/../..''"
    by (simp add: lolo_root_def path_defs example_defs)
  have missing: "files checkout_without_pom (lolo_root checkout_without_pom @ ''/pom.xml'') = None"
    by (simp add: root) (simp add: example_defs)
  from descriptor_failures_raise_library_errors [OF no_pom_marker] missing no_pom_marker
  show ?thesis by blast
qed

text \<open>
  The three descriptor failures at the example checkouts: three different errors, none of
  them particular to reading the descriptor.
\<close>

theorem descriptor_failures_differ:
  "find_lolo_jar checkout_without_pom False = Inl FileNotFoundError \<and>
   find_lolo_jar checkout_with_broken_pom False = Inl ParseError \<and>
   find_lolo_jar checkout_without_version False = Inl AttributeError \<and>
   find_lolo_jar checkout_without_pom False \<noteq> find_lolo_jar checkout_without_version False"
  by (simp add: no_pom_result broken_pom_result no_version_result)

subsection \<open>Checking for Java\<close>

text \<open>
  C1, against the code: when no Java executable is on the PATH,
  \<^verbatim>\<open>_java_is_installed\<close> never returns \<^verbatim>\<open>False\<close>. With the environment
  ignored it raises the \<^verbatim>\<open>FileNotFoundError\<close> of \<^verbatim>\<open>subprocess.run\<close>;
  with the environment consulted it returns \<^verbatim>\<open>True\<close> or raises that error.
\<close>

theorem java_is_installed_raises_without_executable:
  "java_version_run w (environ w) = ExecutableNotFound \<Longrightarrow>
     java_is_installed w ignore_env \<noteq> Inr False \<and>
     java_is_installed w True = Inl FileNotFoundError"
  by (simp add: java_is_installed_def)

theorem java_is_installed_raises_without_executable_witness:
  "java_version_run without_java (environ without_java) = ExecutableNotFound \<and>
   java_is_installed without_java False = Inl FileNotFoundError \<and>
   java_is_installed without_java True = Inl FileNotFoundError"
proof -
  have "java_version_run without_java (environ without_java) = ExecutableNotFound"
    by (simp add: without_java_def)
  from this java_is_installed_raises_without_executable [OF this, of False]
    without_java_default_call
  show ?thesis by simp
qed




subsection \<open>The Java options\<close>

text \<open>
  C3, as the code has it: the Java options follow the presence of
  \<^verbatim>\<open>LOLOPY_JVM_MEMORY\<close> in the environment, not its content. Absent, the list is
  empty; present with value \<open>v\<close>, empty or not, the list is the one flag
  \<^verbatim>\<open>-Xmx\<close> followed by \<open>v\<close>.
\<close>

theorem java_options_by_presence:
  "(environ w ''LOLOPY_JVM_MEMORY'' = None \<longrightarrow> java_options w = []) \<and>
   (environ w ''LOLOPY_JVM_MEMORY'' = Some v \<longrightarrow> java_options w = [''-Xmx'' @ v])"
  by (simp add: java_options_def)

theorem java_options_by_presence_witness:
  "environ heap_2g ''LOLOPY_JVM_MEMORY'' = Some ''2g'' \<and> java_options heap_2g = [''-Xmx2g''] \<and>
   environ checkout ''LOLOPY_JVM_MEMORY'' = None \<and> java_options checkout = []"
proof -
  have a: "environ heap_2g ''LOLOPY_JVM_MEMORY'' = Some ''2g''"
    by (simp add: heap_2g_def)
  have b: "environ checkout ''LOLOPY_JVM_MEMORY'' = None"
    by (simp add: checkout_def)
  from a b java_options_by_presence [of heap_2g "''2g''"] java_options_by_presence [of checkout "''2g''"]
  show ?thesis by simp
qed

text \<open>
  The variable set to the empty string: the list is not empty, it holds the bare flag
  \<^verbatim>\<open>-Xmx\<close>.
\<close>

theorem empty_heap_variable_gives_flag:
  "environ heap_empty ''LOLOPY_JVM_MEMORY'' = Some [] \<and>
   java_options heap_empty = [''-Xmx''] \<and>
   java_options heap_empty \<noteq> []"
  by (simp add: java_options_def heap_empty_def)

subsection \<open>Getting the gateway\<close>

lemma reuse_stored:
  "lolopy_gateway s = Some h \<Longrightarrow> get_java_gateway w s True k = (Inr h, s)"
  by (simp add: get_java_gateway_def)


lemma failure_keeps:
  "get_java_gateway w s reuse k = (Inl e, s1) \<Longrightarrow> lolopy_gateway s1 = lolopy_gateway s"
  by (auto simp: get_java_gateway_def Let_def log_call_def split: if_splits sum.splits)

lemma launch_passes_java_options:
  assumes "lolopy_gateway s = None \<or> \<not> reuse"
    and "get_java_gateway w s reuse k = (Inr h, s1)"
  shows "\<exists>p. find_lolo_jar w k = Inr p \<and>
             calls s1 = calls s @ [FindJar k, JavaCheck False, Launch (abspath w p) (java_options w)]"
  using assms
  by (auto simp: get_java_gateway_def Let_def log_call_def split: if_splits sum.splits)



text \<open>
  C7: when \<open>get_java_gateway\<close> has to launch (no gateway stored, or
  \<^verbatim>\<open>reuse=False\<close>), it calls \<open>find_lolo_jar\<close> first and an error of that call
  is the error of \<open>get_java_gateway\<close>, with nothing else called. Only when a jar was found
  does it call \<^verbatim>\<open>_java_is_installed\<close>, with \<^verbatim>\<open>ignore_env=False\<close>; when
  that returns \<^verbatim>\<open>False\<close> the call raises the \<^verbatim>\<open>ValueError\<close> (the spec's
  RuntimeUnavailableError), and the log shows no launch.
\<close>

theorem launch_checks_in_order:
  assumes "lolopy_gateway s = None \<or> \<not> reuse"
  shows "(find_lolo_jar w k = Inl e \<longrightarrow>
            get_java_gateway w s reuse k = (Inl e, s\<lparr>calls := calls s @ [FindJar k]\<rparr>)) \<and>
         (find_lolo_jar w k = Inr p \<and> java_is_installed w False = Inr False \<longrightarrow>
            get_java_gateway w s reuse k =
              (Inl (ValueError
                 ''Cannot find Java installation. Java must be installed and on your PATH''),
               s\<lparr>calls := calls s @ [FindJar k, JavaCheck False]\<rparr>))"
  using assms by (auto simp: get_java_gateway_def Let_def log_call_def)

theorem launch_checks_in_order_witness:
  "lolopy_gateway fresh = None \<and>
   find_lolo_jar with_openjdk False
     = Inr ''/lolo/python/lolopy/../../target/lolo-1.0.2-jar-with-dependencies.jar'' \<and>
   java_is_installed with_openjdk False = Inr False \<and>
   get_java_gateway with_openjdk fresh True False =
     (Inl (ValueError ''Cannot find Java installation. Java must be installed and on your PATH''),
      \<lparr>lolopy_gateway = None, calls = [FindJar False, JavaCheck False]\<rparr>) \<and>
   get_java_gateway unbuilt_checkout fresh True False =
     (Inl (RuntimeError ''Current version of lolo jar not found. Try re-building project with make''),
      \<lparr>lolopy_gateway = None, calls = [FindJar False]\<rparr>)"
proof -
  have none: "lolopy_gateway fresh = None \<or> \<not> True"
    by (simp add: fresh_def)
  from launch_checks_in_order [OF none, of with_openjdk False _ "''/lolo/python/lolopy/../../target/lolo-1.0.2-jar-with-dependencies.jar''"]
       launch_checks_in_order [OF none, of unbuilt_checkout False "RuntimeError ''Current version of lolo jar not found. Try re-building project with make''"]
       openjdk_jar openjdk_java unbuilt_jar
  show ?thesis by (simp add: fresh_def)
qed

text \<open>
  C9: a call of \<open>get_java_gateway\<close> that raises, at whatever step, leaves the stored
  gateway as it was; a gateway stored before is returned by a following call with
  \<^verbatim>\<open>reuse=True\<close>.
\<close>

theorem failed_call_keeps_gateway:
  assumes "get_java_gateway w s reuse k = (Inl e, s1)"
  shows "lolopy_gateway s1 = lolopy_gateway s \<and>
         (lolopy_gateway s = Some h \<longrightarrow> get_java_gateway w' s1 True k' = (Inr h, s1))"
  using failure_keeps [OF assms] by (simp add: reuse_stored)

theorem failed_call_keeps_gateway_witness:
  "get_java_gateway unbuilt_checkout launched False False =
     (Inl (RuntimeError ''Current version of lolo jar not found. Try re-building project with make''),
      launched\<lparr>calls := calls launched @ [FindJar False]\<rparr>) \<and>
   lolopy_gateway launched = Some (JavaGateway 0) \<and>
   lolopy_gateway (launched\<lparr>calls := calls launched @ [FindJar False]\<rparr>) = Some (JavaGateway 0) \<and>
   get_java_gateway unbuilt_checkout (launched\<lparr>calls := calls launched @ [FindJar False]\<rparr>) True False =
     (Inr (JavaGateway 0), launched\<lparr>calls := calls launched @ [FindJar False]\<rparr>)"
proof -
  have stored: "lolopy_gateway launched = Some (JavaGateway 0)"
    by (simp add: launched_def)
  from failed_call_keeps_gateway [OF unbuilt_fresh_launch, of "JavaGateway 0" unbuilt_checkout False]
       unbuilt_fresh_launch stored
  show ?thesis by simp
qed

text \<open>
  C10: with a gateway stored and \<^verbatim>\<open>reuse=True\<close>, setting, changing or removing
  \<^verbatim>\<open>LOLOPY_JVM_MEMORY\<close> does not change the result of \<open>get_java_gateway\<close>,
  which is the stored gateway. The options are bound before the test for reuse, as in the
  source, and play no part on this path.
\<close>

theorem reuse_ignores_heap_variable:
  assumes "lolopy_gateway s = Some h"
  shows "get_java_gateway (w\<lparr>environ := (environ w)(''LOLOPY_JVM_MEMORY'' := heap)\<rparr>) s True k
           = get_java_gateway w s True k \<and>
         fst (get_java_gateway w s True k) = Inr h"
  using assms by (simp add: reuse_stored)

theorem reuse_ignores_heap_variable_witness:
  "lolopy_gateway launched = Some (JavaGateway 0) \<and>
   java_options (checkout\<lparr>environ := (environ checkout)(''LOLOPY_JVM_MEMORY'' := Some ''2g'')\<rparr>)
     \<noteq> java_options checkout \<and>
   get_java_gateway (checkout\<lparr>environ := (environ checkout)(''LOLOPY_JVM_MEMORY'' := Some ''2g'')\<rparr>)
       launched True False
     = get_java_gateway checkout launched True False \<and>
   fst (get_java_gateway checkout launched True False) = Inr (JavaGateway 0)"
proof -
  have stored: "lolopy_gateway launched = Some (JavaGateway 0)"
    by (simp add: launched_def)
  have opts: "java_options (checkout\<lparr>environ := (environ checkout)(''LOLOPY_JVM_MEMORY'' := Some ''2g'')\<rparr>)
     \<noteq> java_options checkout"
    by (simp add: java_options_def checkout_def)
  from reuse_ignores_heap_variable [OF stored, of checkout "Some ''2g''" False] stored opts
  show ?thesis by simp
qed

end
